theory Spec2Isabelle
  imports Main "HOL-Library.Sublist"
begin

section \<open>Dataset version utilities of the LeRobot dataset visualizer\<close>

text \<open>
  A shallow embedding of the module that exports \<^verbatim>\<open>getDatasetInfo\<close>,
  \<^verbatim>\<open>getDatasetVersion\<close> and \<^verbatim>\<open>buildVersionedUrl\<close>. Strings are
  \<^typ>\<open>string\<close>; the only character the code looks at is the path separator, which
  is one code unit in every encoding.
\<close>

subsection \<open>JavaScript values, thrown values and errors\<close>

text \<open>
  The values that \<^verbatim>\<open>response.json()\<close> can produce, with \<open>JUndefined\<close> added for
  the result of reading a property that is not there. A number is modelled by an
  integer: the code does no arithmetic on a parsed number, it tests one for zero and
  prints one in a message. An object is the list of its own properties; the first
  entry for a key is the value of the property.
\<close>

datatype js_value =
    JUndefined
  | JNull
  | JBool bool
  | JNum int
  | JStr string
  | JArr "js_value list"
  | JObj "(string \<times> js_value) list"

text \<open>An instance of \<^verbatim>\<open>Error\<close> (or of a subclass): its name and its message.\<close>

datatype js_error = JsError (err_name: string) (err_message: string)

text \<open>
  What a \<^verbatim>\<open>throw\<close> or a rejected promise carries: an \<^verbatim>\<open>Error\<close> instance, or
  any other value (\<^verbatim>\<open>error instanceof Error\<close> tells them apart).
\<close>

datatype thrown = ErrorInstance js_error | NonError js_value

definition new_Error :: "string \<Rightarrow> js_error" where
  "new_Error msg = JsError ''Error'' msg"

definition TypeError :: "string \<Rightarrow> thrown" where
  "TypeError msg = ErrorInstance (JsError ''TypeError'' msg)"

text \<open>The truthiness of a value, as \<^verbatim>\<open>!x\<close>, \<^verbatim>\<open>x ? a : b\<close> and \<^verbatim>\<open>x || y\<close> test it.\<close>

fun truthy :: "js_value \<Rightarrow> bool" where
  "truthy JUndefined = False"
| "truthy JNull = False"
| "truthy (JBool b) = b"
| "truthy (JNum n) = (n \<noteq> 0)"
| "truthy (JStr s) = (s \<noteq> [])"
| "truthy (JArr xs) = True"
| "truthy (JObj kvs) = True"

fun thrown_truthy :: "thrown \<Rightarrow> bool" where
  "thrown_truthy (ErrorInstance e) = True"
| "thrown_truthy (NonError v) = truthy v"

text \<open>
  The property read \<^verbatim>\<open>v.k\<close>, for the keys the module reads (\<^verbatim>\<open>features\<close>,
  \<^verbatim>\<open>codebase_version\<close>, \<^verbatim>\<open>name\<close>): none of them is a property of a string, a
  number, a boolean or an array, or inherited by a parsed object. Reading a property
  of \<^verbatim>\<open>null\<close> or \<^verbatim>\<open>undefined\<close> throws a \<^verbatim>\<open>TypeError\<close>.
\<close>

fun get_prop :: "js_value \<Rightarrow> string \<Rightarrow> thrown + js_value" where
  "get_prop JUndefined k =
     Inl (TypeError (''Cannot read properties of undefined (reading ''
                     @ [CHR 0x27] @ k @ [CHR 0x27] @ '')''))"
| "get_prop JNull k =
     Inl (TypeError (''Cannot read properties of null (reading ''
                     @ [CHR 0x27] @ k @ [CHR 0x27] @ '')''))"
| "get_prop (JObj kvs) k = Inr (case map_of kvs k of Some v \<Rightarrow> v | None \<Rightarrow> JUndefined)"
| "get_prop v k = Inr JUndefined"

subsection \<open>Template literals\<close>

text \<open>
  The decimal numeral of a status code or of an integer, as a template literal prints
  it: the digits are produced from the least significant one and pushed in front.
\<close>

definition digit_char :: "nat \<Rightarrow> char" where
  "digit_char d = ''0123456789'' ! (d mod 10)"

fun push_digits :: "nat \<Rightarrow> string \<Rightarrow> string" where
  "push_digits n acc =
     (if n < 10 then digit_char n # acc
      else push_digits (n div 10) (digit_char (n mod 10) # acc))"

definition decimal :: "nat \<Rightarrow> string" where
  "decimal n = push_digits n []"

definition number_to_string :: "int \<Rightarrow> string" where
  "number_to_string i = (if 0 \<le> i then decimal (nat i) else CHR ''-'' # decimal (nat (- i)))"

text \<open>
  The string a template literal inserts for \<^verbatim>\<open>${v}\<close>. An array is the join of its
  elements with commas, \<^verbatim>\<open>null\<close> and \<^verbatim>\<open>undefined\<close> elements printing as nothing.
  A parsed object prints through \<^verbatim>\<open>Object.prototype.toString\<close>, unless it has an own
  property \<^verbatim>\<open>toString\<close>, which is then no function, and the conversion throws.
\<close>

fun to_string :: "js_value \<Rightarrow> thrown + string"
  and join_elems :: "js_value list \<Rightarrow> thrown + string" where
  "to_string JUndefined = Inr ''undefined''"
| "to_string JNull = Inr ''null''"
| "to_string (JBool b) = Inr (if b then ''true'' else ''false'')"
| "to_string (JNum n) = Inr (number_to_string n)"
| "to_string (JStr s) = Inr s"
| "to_string (JArr xs) = join_elems xs"
| "to_string (JObj kvs) =
     (if map_of kvs ''toString'' \<noteq> None
      then Inl (TypeError ''Cannot convert object to primitive value'')
      else Inr ''[object Object]'')"
| "join_elems [] = Inr []"
| "join_elems (x # xs) =
     (case (if x = JUndefined \<or> x = JNull then Inr [] else to_string x) of
        Inl t \<Rightarrow> Inl t
      | Inr s \<Rightarrow>
          if xs = [] then Inr s
          else (case join_elems xs of Inl t \<Rightarrow> Inl t | Inr r \<Rightarrow> Inr (s @ '','' @ r)))"

subsection \<open>The environment and the artifact host\<close>

text \<open>The three variables of \<^verbatim>\<open>process.env\<close> the module reads; \<open>None\<close> is unset.\<close>

record env =
  env_DATASET_URL :: "string option"
  env_HF_TOKEN :: "string option"
  env_HUGGINGFACE_TOKEN :: "string option"

text \<open>\<^verbatim>\<open>a || b\<close> on an environment variable: unset and the empty string are falsy.\<close>

definition or_else :: "string option \<Rightarrow> string option \<Rightarrow> string option" where
  "or_else a b = (case a of Some s \<Rightarrow> (if s \<noteq> [] then Some s else b) | None \<Rightarrow> b)"

definition DATASET_URL :: "env \<Rightarrow> string" where
  "DATASET_URL e =
     (case or_else (env_DATASET_URL e) None of
        Some s \<Rightarrow> s
      | None \<Rightarrow> ''https://huggingface.co/datasets'')"

subsection \<open>The base-path prefix\<close>

definition is_sep :: "char \<Rightarrow> bool" where
  "is_sep c = (c = CHR ''/'')"

text \<open>
  \<^verbatim>\<open>s.replace(/^\/+|\/+$/g, "")\<close>: the scan of a global replace, from left to
  right. At the start of the string the first alternative takes the leading run of
  separators. Elsewhere only the second alternative can match, and it does where the
  rest of the string is a non-empty run of separators, which it takes whole. Any other
  character is copied. The flag says whether the scan is at index 0.
\<close>

function replace_seps :: "bool \<Rightarrow> string \<Rightarrow> string" where
  "replace_seps at_start [] = []"
| "replace_seps at_start (c # cs) =
     (if at_start \<and> is_sep c then replace_seps False (dropWhile is_sep cs)
      else if list_all is_sep (c # cs) then []
      else c # replace_seps False cs)"
  by pat_completeness auto
termination
  by (relation "measure (\<lambda>(b, s). length s)") (auto simp: length_dropWhile_le le_imp_less_Suc)

text \<open>
  \<^verbatim>\<open>basePath ? `${basePath.replace(/^\/+|\/+$/g, "")}/` : ""\<close>, the expression both
  \<^verbatim>\<open>getDatasetInfo\<close> and \<^verbatim>\<open>buildVersionedUrl\<close> bind to \<^verbatim>\<open>prefix\<close>.
\<close>

definition base_prefix :: "string \<Rightarrow> string" where
  "base_prefix basePath = (if basePath \<noteq> [] then replace_seps True basePath @ ''/'' else [])"

text \<open>
  The specification's words for the same: the input with its leading and its trailing
  separators stripped.
\<close>

definition spec_strip :: "string \<Rightarrow> string" where
  "spec_strip s = rev (dropWhile is_sep (rev (dropWhile is_sep s)))"

subsection \<open>buildVersionedUrl\<close>

definition buildVersionedUrl :: "env \<Rightarrow> string \<Rightarrow> string \<Rightarrow> string \<Rightarrow> string \<Rightarrow> string" where
  "buildVersionedUrl e repoId version path basePath =
     (let prefix = base_prefix basePath
      in DATASET_URL e @ ''/'' @ repoId @ ''/resolve/main/'' @ prefix @ path)"

subsection \<open>The network\<close>

record request =
  url :: string
  headers :: "(string \<times> string) list"

text \<open>
  A response: its status and what \<^verbatim>\<open>response.json()\<close> gives, a parsed value or a
  rejection. \<^verbatim>\<open>response.ok\<close> is the Fetch standard's: a status from 200 to 299.
\<close>

record http_response =
  status :: nat
  json :: "thrown + js_value"

definition ok :: "http_response \<Rightarrow> bool" where
  "ok r = (200 \<le> status r \<and> status r \<le> 299)"

datatype fetch_outcome = Resolves http_response | Rejects thrown

text \<open>
  The world outside: what the \<open>k\<close>-th call of \<^verbatim>\<open>fetch\<close> (from 0) does with a
  request. The 10 second timer shows here and nowhere else: when it fires, the call in
  flight, and every later one, rejects with an \<^verbatim>\<open>AbortError\<close>.
\<close>

type_synonym network = "nat \<Rightarrow> request \<Rightarrow> fetch_outcome"

subsection \<open>getDatasetInfo\<close>

text \<open>\<^verbatim>\<open>err?.name === "AbortError"\<close>\<close>

fun is_abort :: "thrown \<Rightarrow> bool" where
  "is_abort (ErrorInstance e) = (err_name e = ''AbortError'')"
| "is_abort (NonError v) =
     (case v of
        JUndefined \<Rightarrow> False
      | JNull \<Rightarrow> False
      | _ \<Rightarrow> get_prop v ''name'' = Inr (JStr ''AbortError''))"

text \<open>
  What the loop does to the world, in order: a call of \<^verbatim>\<open>fetch\<close> with a request,
  or a wait of so many milliseconds.
\<close>

datatype event = Fetch request | Sleep nat

fun fetch_calls :: "event list \<Rightarrow> nat" where
  "fetch_calls [] = 0"
| "fetch_calls (Fetch req # evs) = Suc (fetch_calls evs)"
| "fetch_calls (Sleep ms # evs) = fetch_calls evs"

text \<open>The variables of the retry loop, and the events so far.\<close>

record loop_state =
  response :: "http_response option"
  attempt :: nat
  lastError :: thrown
  trace :: "event list"

definition maxAttempts :: nat where
  "maxAttempts = 2"

definition initial_state :: loop_state where
  "initial_state = \<lparr>response = None, attempt = 0, lastError = NonError JNull, trace = []\<rparr>"

function fetch_loop :: "network \<Rightarrow> request \<Rightarrow> loop_state \<Rightarrow> loop_state" where
  "fetch_loop net req s =
     (if attempt s < maxAttempts then
        (case net (fetch_calls (trace s)) req of
           Resolves r \<Rightarrow> s\<lparr>response := Some r, trace := trace s @ [Fetch req]\<rparr>
         | Rejects err \<Rightarrow>
             (let s1 = s\<lparr>lastError := err, trace := trace s @ [Fetch req]\<rparr> in
              if is_abort err then s1
              else
                (let s2 = s1\<lparr>attempt := attempt s1 + 1\<rparr> in
                 if attempt s2 < maxAttempts
                 then fetch_loop net req (s2\<lparr>trace := trace s2 @ [Sleep (300 * attempt s2)]\<rparr>)
                 else fetch_loop net req s2)))
      else s)"
  by pat_completeness auto
termination
  by (relation "measure (\<lambda>(net, req, s). maxAttempts - attempt s)") auto

declare fetch_loop.simps [simp del]

definition testUrl :: "env \<Rightarrow> string \<Rightarrow> string \<Rightarrow> string" where
  "testUrl e repoId basePath =
     (let prefix = base_prefix basePath
      in DATASET_URL e @ ''/'' @ repoId @ ''/resolve/main/'' @ prefix @ ''meta/info.json'')"

definition auth_headers :: "env \<Rightarrow> (string \<times> string) list" where
  "auth_headers e =
     (case or_else (env_HF_TOKEN e) (env_HUGGINGFACE_TOKEN e) of
        Some token \<Rightarrow> [(''Authorization'', ''Bearer '' @ token)]
      | None \<Rightarrow> [])"

definition info_request :: "env \<Rightarrow> string \<Rightarrow> string \<Rightarrow> request" where
  "info_request e repoId basePath = \<lparr>url = testUrl e repoId basePath, headers = auth_headers e\<rparr>"

text \<open>The state in which the retry loop of \<^verbatim>\<open>getDatasetInfo\<close> ends.\<close>

definition fetch_attempts :: "env \<Rightarrow> network \<Rightarrow> string \<Rightarrow> string \<Rightarrow> loop_state" where
  "fetch_attempts e net repoId basePath =
     fetch_loop net (info_request e repoId basePath) initial_state"

definition access_denied :: "nat \<Rightarrow> string \<Rightarrow> string \<Rightarrow> js_error" where
  "access_denied st repoId u =
     new_Error (''Failed to fetch dataset info: '' @ decimal st @ ''. ''
       @ ''The dataset '' @ repoId @ '' may be private or gated. ''
       @ ''If it's private, set an access token via HF_TOKEN env variable. ''
       @ ''URL tried: '' @ u)"

definition fetch_failed :: "nat \<Rightarrow> js_error" where
  "fetch_failed st = new_Error (''Failed to fetch dataset info: '' @ decimal st)"

definition malformed_descriptor :: js_error where
  "malformed_descriptor =
     new_Error ''Dataset info.json does not have the expected features structure''"

definition incompatible_dataset :: "string \<Rightarrow> js_error" where
  "incompatible_dataset repoId =
     new_Error (''Dataset '' @ repoId @ '' is not compatible with this visualizer. ''
       @ ''Failed to read dataset information from the main revision.'')"

text \<open>
  The \<^verbatim>\<open>catch (error)\<close> that closes both asynchronous functions: an \<^verbatim>\<open>Error\<close>
  instance is thrown again as it is, anything else is replaced.
\<close>

definition rethrow :: "string \<Rightarrow> thrown \<Rightarrow> thrown" where
  "rethrow repoId error =
     (case error of
        ErrorInstance e \<Rightarrow> ErrorInstance e
      | NonError v \<Rightarrow> ErrorInstance (incompatible_dataset repoId))"

text \<open>The body of the \<^verbatim>\<open>try\<close> of \<^verbatim>\<open>getDatasetInfo\<close>, after the loop.\<close>

definition after_loop :: "string \<Rightarrow> string \<Rightarrow> loop_state \<Rightarrow> thrown + js_value" where
  "after_loop repoId u s =
     (case response s of
        None \<Rightarrow>
          Inl (if thrown_truthy (lastError s) then lastError s
               else ErrorInstance (new_Error ''Unknown network error while fetching dataset info''))
      | Some r \<Rightarrow>
          if \<not> ok r then
            (if status r = 401 \<or> status r = 403
             then Inl (ErrorInstance (access_denied (status r) repoId u))
             else Inl (ErrorInstance (fetch_failed (status r))))
          else
            (case json r of
               Inl t \<Rightarrow> Inl t
             | Inr data \<Rightarrow>
                 (case get_prop data ''features'' of
                    Inl t \<Rightarrow> Inl t
                  | Inr features \<Rightarrow>
                      if \<not> truthy features then Inl (ErrorInstance malformed_descriptor)
                      else Inr data)))"

definition getDatasetInfo :: "env \<Rightarrow> network \<Rightarrow> string \<Rightarrow> string \<Rightarrow> thrown + js_value" where
  "getDatasetInfo e net repoId basePath =
     (case after_loop repoId (testUrl e repoId basePath) (fetch_attempts e net repoId basePath) of
        Inl error \<Rightarrow> Inl (rethrow repoId error)
      | Inr data \<Rightarrow> Inr data)"

subsection \<open>getDatasetVersion\<close>

definition supportedVersions :: "string list" where
  "supportedVersions = [''v3.0'', ''v2.1'', ''v2.0'']"

text \<open>\<^verbatim>\<open>xs.includes(v)\<close> on an array of strings: only an equal string is found.\<close>

definition array_includes :: "string list \<Rightarrow> js_value \<Rightarrow> bool" where
  "array_includes xs v = (case v of JStr s \<Rightarrow> s \<in> set xs | _ \<Rightarrow> False)"

definition missing_version :: js_error where
  "missing_version = new_Error ''Dataset info.json does not contain codebase_version''"

definition unsupported_version :: "string \<Rightarrow> string \<Rightarrow> js_error" where
  "unsupported_version repoId v =
     new_Error (''Dataset '' @ repoId @ '' has codebase version '' @ v
       @ '', which is not supported. ''
       @ ''This tool only works with dataset versions 3.0, 2.1, or 2.0. ''
       @ ''Please use a compatible dataset version.'')"

text \<open>The body of the \<^verbatim>\<open>try\<close> of \<^verbatim>\<open>getDatasetVersion\<close>, after the descriptor is there.\<close>

definition check_version :: "string \<Rightarrow> js_value \<Rightarrow> thrown + js_value" where
  "check_version repoId datasetInfo =
     (case get_prop datasetInfo ''codebase_version'' of
        Inl t \<Rightarrow> Inl t
      | Inr codebaseVersion \<Rightarrow>
          if \<not> truthy codebaseVersion then Inl (ErrorInstance missing_version)
          else if \<not> array_includes supportedVersions codebaseVersion then
            (case to_string codebaseVersion of
               Inl t \<Rightarrow> Inl t
             | Inr v \<Rightarrow> Inl (ErrorInstance (unsupported_version repoId v)))
          else Inr codebaseVersion)"

definition getDatasetVersion :: "env \<Rightarrow> network \<Rightarrow> string \<Rightarrow> string \<Rightarrow> thrown + js_value" where
  "getDatasetVersion e net repoId basePath =
     (case (case getDatasetInfo e net repoId basePath of
              Inl t \<Rightarrow> Inl t
            | Inr datasetInfo \<Rightarrow> check_version repoId datasetInfo) of
        Inl error \<Rightarrow> Inl (rethrow repoId error)
      | Inr v \<Rightarrow> Inr v)"

subsection \<open>Networks\<close>

text \<open>
  A response reaches the code after the loop in one of two ways: the first call of
  \<^verbatim>\<open>fetch\<close> resolves with it, or the first call rejects with something that is no
  abort and the second call resolves with it.
\<close>

definition answers :: "network \<Rightarrow> request \<Rightarrow> http_response \<Rightarrow> bool" where
  "answers net req r =
     (case net 0 req of
        Resolves r0 \<Rightarrow> r0 = r
      | Rejects t \<Rightarrow> \<not> is_abort t \<and> net 1 req = Resolves r)"

text \<open>The network on which every call of \<^verbatim>\<open>fetch\<close> ends the same way.\<close>

definition always :: "fetch_outcome \<Rightarrow> network" where
  "always out = (\<lambda>k req. out)"

text \<open>The network whose first call rejects and whose later calls all end the same way.\<close>

definition first_rejects :: "thrown \<Rightarrow> fetch_outcome \<Rightarrow> network" where
  "first_rejects t out = (\<lambda>k req. if k = 0 then Rejects t else out)"

text \<open>The network that answers every request with status 200 and the given parsed body.\<close>

definition serves :: "js_value \<Rightarrow> network" where
  "serves body = always (Resolves \<lparr>status = 200, json = Inr body\<rparr>)"

text \<open>The environment in which none of the three variables is set.\<close>

definition default_env :: env where
  "default_env = \<lparr>env_DATASET_URL = None, env_HF_TOKEN = None, env_HUGGINGFACE_TOKEN = None\<rparr>"

section \<open>The base-path prefix and the URL builder\<close>

subsection \<open>The regular expression strips both ends\<close>

lemma replace_seps_False: "replace_seps False s = rev (dropWhile is_sep (rev s))"
  by (induction s) (auto simp: dropWhile_append list_all_iff)

lemma replace_seps_True: "replace_seps True s = replace_seps False (dropWhile is_sep s)"
  by (cases s) (auto simp: list_all_iff)

lemma replace_seps_spec: "replace_seps True s = spec_strip s"
  by (simp add: replace_seps_True replace_seps_False spec_strip_def)

lemma last_dropWhile_keep: "dropWhile P xs \<noteq> [] \<Longrightarrow> last (dropWhile P xs) = last xs"
  by (induction xs) auto

lemma spec_strip_last: "spec_strip s \<noteq> [] \<Longrightarrow> \<not> is_sep (last (spec_strip s))"
  unfolding spec_strip_def by (simp add: last_rev hd_dropWhile)

lemma spec_strip_hd: "spec_strip s \<noteq> [] \<Longrightarrow> \<not> is_sep (hd (spec_strip s))"
proof -
  assume ne: "spec_strip s \<noteq> []"
  let ?u = "dropWhile is_sep s"
  from ne have d: "dropWhile is_sep (rev ?u) \<noteq> []" by (simp add: spec_strip_def)
  then have u: "?u \<noteq> []" by (cases "dropWhile is_sep s") auto
  have "hd (spec_strip s) = last (dropWhile is_sep (rev ?u))"
    using d by (simp add: spec_strip_def hd_rev)
  also have "\<dots> = last (rev ?u)" using d by (rule last_dropWhile_keep)
  also have "\<dots> = hd ?u" using u by (simp add: last_rev)
  finally show ?thesis using u by (simp add: hd_dropWhile)
qed

lemma spec_strip_fix:
  assumes "t \<noteq> []" "\<not> is_sep (hd t)" "\<not> is_sep (last t)"
  shows "spec_strip (t @ ''/'') = t"
proof -
  have 1: "dropWhile is_sep (t @ ''/'') = t @ ''/''" using assms by (cases t) auto
  have 2: "dropWhile is_sep (rev t) = rev t" using assms by (cases "rev t") (auto simp: hd_rev)
  show ?thesis by (simp add: spec_strip_def 1 2 is_sep_def)
qed

lemma spec_strip_idem: "spec_strip (spec_strip p @ ''/'') = spec_strip p"
proof (cases "spec_strip p = []")
  case True
  have "spec_strip ''/'' = []" by (simp add: spec_strip_def is_sep_def)
  then show ?thesis by (simp only: True append_Nil)
next
  case False
  show ?thesis by (rule spec_strip_fix [OF False spec_strip_hd [OF False] spec_strip_last [OF False]])
qed

lemma base_prefix_spec: "base_prefix p = (if p \<noteq> [] then spec_strip p @ ''/'' else [])"
  by (simp add: base_prefix_def replace_seps_spec)

subsection \<open>Claims about buildVersionedUrl and the prefix\<close>

text \<open>
  C2. With an empty base path, \<^verbatim>\<open>buildVersionedUrl\<close> returns the artifact host, the
  repository identifier, \<^verbatim>\<open>/resolve/main/\<close> and the relative path, whatever the
  version is. With the default host, repository \<^verbatim>\<open>lerobot/pusht\<close>, version
  \<^verbatim>\<open>v2.1\<close> and path \<^verbatim>\<open>meta/info.json\<close> this is
  \<^verbatim>\<open>https://huggingface.co/datasets/lerobot/pusht/resolve/main/meta/info.json\<close>.
\<close>

theorem buildVersionedUrl_empty_prefix:
  "buildVersionedUrl e repoId version path [] =
     DATASET_URL e @ ''/'' @ repoId @ ''/resolve/main/'' @ path
   \<and> buildVersionedUrl default_env ''lerobot/pusht'' ''v2.1'' ''meta/info.json'' [] =
     ''https://huggingface.co/datasets/lerobot/pusht/resolve/main/meta/info.json''"
  by (simp add: buildVersionedUrl_def base_prefix_def DATASET_URL_def or_else_def default_env_def)

text \<open>
  C3, as the specification states it: the prefix put into the URL is the base path with
  its leading and trailing separators stripped, followed by one separator when the
  stripped string is not empty, and is empty when the stripped string is empty. It
  fails for the base path \<^verbatim>\<open>/\<close>: the stripped string is empty, the prefix is
  \<^verbatim>\<open>/\<close>, and the URL has two separators in a row.
\<close>

theorem base_prefix_stripped_empty_counterexample:
  "\<not> (base_prefix ''/'' =
        (if spec_strip ''/'' \<noteq> [] then spec_strip ''/'' @ ''/'' else []))
   \<and> spec_strip ''/'' = []
   \<and> base_prefix ''/'' = ''/''
   \<and> buildVersionedUrl default_env ''lerobot/pusht'' ''v2.1'' ''meta/info.json'' ''/'' =
       ''https://huggingface.co/datasets/lerobot/pusht/resolve/main//meta/info.json''
   \<and> testUrl default_env ''lerobot/pusht'' ''/'' =
       ''https://huggingface.co/datasets/lerobot/pusht/resolve/main//meta/info.json''"
  by (simp add: base_prefix_def spec_strip_def is_sep_def buildVersionedUrl_def testUrl_def
      DATASET_URL_def or_else_def default_env_def)

text \<open>
  C3, amended: the test is on the base path, not on the stripped string. The prefix
  that \<^verbatim>\<open>buildVersionedUrl\<close> and \<^verbatim>\<open>getDatasetInfo\<close> put into the URL is the base
  path with its leading and trailing separators stripped, followed by one separator,
  when the base path is not empty; it is empty when the base path is empty.
\<close>

theorem base_prefix_strips_both_ends:
  "base_prefix basePath = (if basePath \<noteq> [] then spec_strip basePath @ ''/'' else [])
   \<and> buildVersionedUrl e repoId version path basePath =
       DATASET_URL e @ ''/'' @ repoId @ ''/resolve/main/''
       @ (if basePath \<noteq> [] then spec_strip basePath @ ''/'' else []) @ path
   \<and> testUrl e repoId basePath =
       DATASET_URL e @ ''/'' @ repoId @ ''/resolve/main/''
       @ (if basePath \<noteq> [] then spec_strip basePath @ ''/'' else []) @ ''meta/info.json''"
  by (simp add: buildVersionedUrl_def testUrl_def base_prefix_spec)

text \<open>
  C8. Normalising a normalised prefix changes nothing, and the base paths
  \<^verbatim>\<open>/a/b/\<close>, \<^verbatim>\<open>a/b/\<close> and \<^verbatim>\<open>a/b\<close> all give the prefix \<^verbatim>\<open>a/b/\<close>.
\<close>

theorem base_prefix_idempotent:
  "base_prefix (base_prefix p) = base_prefix p
   \<and> base_prefix ''/a/b/'' = ''a/b/''
   \<and> base_prefix ''a/b/'' = ''a/b/''
   \<and> base_prefix ''a/b'' = ''a/b/''"
proof -
  have idem: "base_prefix (base_prefix p) = base_prefix p"
  proof (cases "p = []")
    case True
    then show ?thesis by (simp add: base_prefix_def)
  next
    case False
    then have "base_prefix p = spec_strip p @ ''/''" by (simp add: base_prefix_spec)
    moreover have "base_prefix (spec_strip p @ ''/'') = spec_strip (spec_strip p @ ''/'') @ ''/''"
      by (simp only: base_prefix_spec) simp
    ultimately show ?thesis by (simp only: spec_strip_idem)
  qed
  have ex1: "base_prefix ''/a/b/'' = ''a/b/''" by (simp add: base_prefix_def is_sep_def)
  have ex2: "base_prefix ''a/b/'' = ''a/b/''" by (simp add: base_prefix_def is_sep_def)
  have ex3: "base_prefix ''a/b'' = ''a/b/''" by (simp add: base_prefix_def is_sep_def)
  from idem ex1 ex2 ex3 show ?thesis by blast
qed

text \<open>
  C9. The URL that \<^verbatim>\<open>buildVersionedUrl\<close> returns does not depend on the version: two
  calls that differ in nothing but the version return the same string. The function
  reads nothing but its arguments and the artifact host.
\<close>

theorem buildVersionedUrl_ignores_version:
  "buildVersionedUrl e repoId v1 path basePath = buildVersionedUrl e repoId v2 path basePath"
  by (simp add: buildVersionedUrl_def)

section \<open>The retry loop\<close>

text \<open>
  The loop makes at most two calls, so its result from the initial state can be written
  out in full.
\<close>

lemma fetch_loop_unrolled:
  "fetch_loop net req initial_state =
     (case net 0 req of
        Resolves r \<Rightarrow> \<lparr>response = Some r, attempt = 0, lastError = NonError JNull, trace = [Fetch req]\<rparr>
      | Rejects e1 \<Rightarrow>
          if is_abort e1
          then \<lparr>response = None, attempt = 0, lastError = e1, trace = [Fetch req]\<rparr>
          else
            (case net 1 req of
               Resolves r \<Rightarrow>
                 \<lparr>response = Some r, attempt = 1, lastError = e1,
                  trace = [Fetch req, Sleep 300, Fetch req]\<rparr>
             | Rejects e2 \<Rightarrow>
                 \<lparr>response = None, attempt = (if is_abort e2 then 1 else 2), lastError = e2,
                  trace = [Fetch req, Sleep 300, Fetch req]\<rparr>))"
  by (simp add: fetch_loop.simps initial_state_def maxAttempts_def Let_def split: fetch_outcome.splits)

lemma response_answers:
  "(response (fetch_loop net req initial_state) = Some r) = answers net req r"
  by (simp add: fetch_loop_unrolled answers_def split: fetch_outcome.splits)

lemma answers_always: "answers (always (Resolves r)) req r"
  by (simp add: answers_def always_def)

lemma answers_first_rejects:
  "\<not> is_abort t \<Longrightarrow> answers (first_rejects t (Resolves r)) req r"
  by (simp add: answers_def first_rejects_def)

lemma rethrow_ErrorInstance [simp]: "rethrow repoId (ErrorInstance err) = ErrorInstance err"
  by (simp add: rethrow_def)

text \<open>
  When a response reaches the code after the loop, the result of \<^verbatim>\<open>getDatasetInfo\<close>
  depends on that response alone.
\<close>

lemma getDatasetInfo_answered:
  assumes "answers net (info_request e repoId basePath) r"
  shows "getDatasetInfo e net repoId basePath =
     (if \<not> ok r then
        (if status r = 401 \<or> status r = 403
         then Inl (ErrorInstance (access_denied (status r) repoId (testUrl e repoId basePath)))
         else Inl (ErrorInstance (fetch_failed (status r))))
      else
        (case json r of
           Inl t \<Rightarrow> Inl (rethrow repoId t)
         | Inr data \<Rightarrow>
             (case get_prop data ''features'' of
                Inl t \<Rightarrow> Inl (rethrow repoId t)
              | Inr features \<Rightarrow>
                  if \<not> truthy features then Inl (ErrorInstance malformed_descriptor)
                  else Inr data)))"
proof -
  from assms have "response (fetch_attempts e net repoId basePath) = Some r"
    by (simp add: fetch_attempts_def response_answers)
  then show ?thesis
    by (simp add: getDatasetInfo_def after_loop_def split: sum.splits)
qed

lemma getDatasetInfo_serves:
  "getDatasetInfo e (serves body) repoId basePath =
     (case get_prop body ''features'' of
        Inl t \<Rightarrow> Inl (rethrow repoId t)
      | Inr features \<Rightarrow>
          if \<not> truthy features then Inl (ErrorInstance malformed_descriptor) else Inr body)"
  unfolding serves_def by (simp add: getDatasetInfo_answered [OF answers_always] ok_def)

text \<open>
  C4. If every call of \<^verbatim>\<open>fetch\<close> rejects with an \<^verbatim>\<open>Error\<close> that is no
  \<^verbatim>\<open>AbortError\<close> (a transport fault), then \<^verbatim>\<open>getDatasetInfo\<close> calls \<^verbatim>\<open>fetch\<close>
  exactly twice, waits once in between, for 300 ms times the attempt number 1, and
  throws the error of the second call, the last one it saw.
\<close>

theorem getDatasetInfo_retry_bound:
  assumes "\<And>k. \<exists>err. net k (info_request e repoId basePath) = Rejects (ErrorInstance err)
                    \<and> err_name err \<noteq> ''AbortError''"
  shows "\<exists>err. net 1 (info_request e repoId basePath) = Rejects (ErrorInstance err)
           \<and> getDatasetInfo e net repoId basePath = Inl (ErrorInstance err)
           \<and> trace (fetch_attempts e net repoId basePath) =
               [Fetch (info_request e repoId basePath), Sleep (300 * 1),
                Fetch (info_request e repoId basePath)]
           \<and> fetch_calls (trace (fetch_attempts e net repoId basePath)) = 2"
proof -
  let ?req = "info_request e repoId basePath"
  from assms obtain e1 where e1: "net 0 ?req = Rejects (ErrorInstance e1)" "err_name e1 \<noteq> ''AbortError''"
    by blast
  from assms obtain e2 where e2: "net 1 ?req = Rejects (ErrorInstance e2)" "err_name e2 \<noteq> ''AbortError''"
    by blast
  have s: "fetch_attempts e net repoId basePath =
      \<lparr>response = None, attempt = 2, lastError = ErrorInstance e2,
       trace = [Fetch ?req, Sleep 300, Fetch ?req]\<rparr>"
    using e1 e2 by (simp add: fetch_attempts_def fetch_loop_unrolled)
  have "getDatasetInfo e net repoId basePath = Inl (ErrorInstance e2)"
    by (simp add: getDatasetInfo_def after_loop_def s)
  with e2 s show ?thesis by simp
qed

theorem getDatasetInfo_retry_bound_witness:
  "(\<forall>k. \<exists>err. always (Rejects (ErrorInstance (JsError ''TypeError'' ''fetch failed''))) k
              (info_request default_env ''lerobot/pusht'' []) = Rejects (ErrorInstance err)
            \<and> err_name err \<noteq> ''AbortError'')
   \<and> getDatasetInfo default_env
        (always (Rejects (ErrorInstance (JsError ''TypeError'' ''fetch failed''))))
        ''lerobot/pusht'' [] = Inl (ErrorInstance (JsError ''TypeError'' ''fetch failed''))
   \<and> trace (fetch_attempts default_env
        (always (Rejects (ErrorInstance (JsError ''TypeError'' ''fetch failed''))))
        ''lerobot/pusht'' []) =
      [Fetch (info_request default_env ''lerobot/pusht'' []), Sleep 300,
       Fetch (info_request default_env ''lerobot/pusht'' [])]"
proof -
  let ?net = "always (Rejects (ErrorInstance (JsError ''TypeError'' ''fetch failed'')))"
  have h: "\<exists>err. ?net k (info_request default_env ''lerobot/pusht'' []) = Rejects (ErrorInstance err)
            \<and> err_name err \<noteq> ''AbortError''" for k
    by (simp add: always_def)
  from getDatasetInfo_retry_bound [of ?net default_env "''lerobot/pusht''" "[]", OF h] h
  show ?thesis by (simp add: always_def)
qed

text \<open>
  C5. If the first call of \<^verbatim>\<open>fetch\<close> rejects with an \<^verbatim>\<open>AbortError\<close>, then
  \<^verbatim>\<open>getDatasetInfo\<close> makes no second call and no wait, and throws that very error.
\<close>

theorem getDatasetInfo_abort_no_retry:
  assumes "net 0 (info_request e repoId basePath) = Rejects (ErrorInstance err)"
      and "err_name err = ''AbortError''"
  shows "getDatasetInfo e net repoId basePath = Inl (ErrorInstance err)
       \<and> trace (fetch_attempts e net repoId basePath) = [Fetch (info_request e repoId basePath)]"
proof -
  have s: "fetch_attempts e net repoId basePath =
      \<lparr>response = None, attempt = 0, lastError = ErrorInstance err,
       trace = [Fetch (info_request e repoId basePath)]\<rparr>"
    using assms by (simp add: fetch_attempts_def fetch_loop_unrolled)
  show ?thesis by (simp add: getDatasetInfo_def after_loop_def s)
qed

theorem getDatasetInfo_abort_no_retry_witness:
  "always (Rejects (ErrorInstance (JsError ''AbortError'' ''This operation was aborted''))) 0
     (info_request default_env ''lerobot/pusht'' []) =
     Rejects (ErrorInstance (JsError ''AbortError'' ''This operation was aborted''))
   \<and> err_name (JsError ''AbortError'' ''This operation was aborted'') = ''AbortError''
   \<and> getDatasetInfo default_env
        (always (Rejects (ErrorInstance (JsError ''AbortError'' ''This operation was aborted''))))
        ''lerobot/pusht'' [] =
      Inl (ErrorInstance (JsError ''AbortError'' ''This operation was aborted''))
   \<and> trace (fetch_attempts default_env
        (always (Rejects (ErrorInstance (JsError ''AbortError'' ''This operation was aborted''))))
        ''lerobot/pusht'' []) = [Fetch (info_request default_env ''lerobot/pusht'' [])]"
proof -
  let ?err = "JsError ''AbortError'' ''This operation was aborted''"
  have h1: "always (Rejects (ErrorInstance ?err)) 0 (info_request default_env ''lerobot/pusht'' []) =
      Rejects (ErrorInstance ?err)"
    by (simp add: always_def)
  have h2: "err_name ?err = ''AbortError''" by simp
  from getDatasetInfo_abort_no_retry [where net = "always (Rejects (ErrorInstance ?err))" and e = default_env
        and repoId = "''lerobot/pusht''" and basePath = "[]" and err = ?err, OF h1 h2] h1 h2
  show ?thesis by simp
qed

section \<open>Classifying the response\<close>

lemma access_denied_not_generic: "access_denied st repoId u \<noteq> fetch_failed st"
  by (simp add: access_denied_def fetch_failed_def new_Error_def)

lemma access_denied_names_repo: "sublist repoId (err_message (access_denied st repoId u))"
proof -
  have "err_message (access_denied st repoId u) =
      (''Failed to fetch dataset info: '' @ decimal st @ ''. The dataset '') @ repoId
      @ ('' may be private or gated. ''
       @ ''If it's private, set an access token via HF_TOKEN env variable. ''
       @ ''URL tried: '' @ u)"
    by (simp add: access_denied_def new_Error_def)
  then show ?thesis by (simp only: sublist_appendI)
qed

lemma access_denied_names_url: "sublist u (err_message (access_denied st repoId u))"
proof -
  have "err_message (access_denied st repoId u) =
      (''Failed to fetch dataset info: '' @ decimal st @ ''. The dataset '' @ repoId
       @ '' may be private or gated. ''
       @ ''If it's private, set an access token via HF_TOKEN env variable. ''
       @ ''URL tried: '') @ u @ []"
    by (simp add: access_denied_def new_Error_def)
  then show ?thesis by (simp only: sublist_appendI)
qed

lemma access_denied_guidance:
  "sublist ''may be private or gated'' (err_message (access_denied st repoId u))"
proof -
  have "err_message (access_denied st repoId u) =
      (''Failed to fetch dataset info: '' @ decimal st @ ''. The dataset '' @ repoId @ '' '')
      @ ''may be private or gated''
      @ (''. If it's private, set an access token via HF_TOKEN env variable. ''
       @ ''URL tried: '' @ u)"
    by (simp add: access_denied_def new_Error_def)
  then show ?thesis by (simp only: sublist_appendI)
qed

lemma fetch_failed_status: "sublist (decimal st) (err_message (fetch_failed st))"
proof -
  have "err_message (fetch_failed st) = ''Failed to fetch dataset info: '' @ decimal st @ []"
    by (simp add: fetch_failed_def new_Error_def)
  then show ?thesis by (simp only: sublist_appendI)
qed

text \<open>
  C6. When a response with a status outside 200..299 arrives, \<^verbatim>\<open>getDatasetInfo\<close>
  throws the access-denied error if the status is 401 or 403, and the generic
  fetch-failed error otherwise. The access-denied message is not the generic one and
  contains the repository identifier, the URL tried and the words
  \<^verbatim>\<open>may be private or gated\<close>; the generic message contains the status code.
\<close>

theorem getDatasetInfo_http_failure:
  assumes "answers net (info_request e repoId basePath) r" and "\<not> ok r"
  shows "getDatasetInfo e net repoId basePath =
           Inl (ErrorInstance
             (if status r = 401 \<or> status r = 403
              then access_denied (status r) repoId (testUrl e repoId basePath)
              else fetch_failed (status r)))
       \<and> access_denied (status r) repoId (testUrl e repoId basePath) \<noteq> fetch_failed (status r)
       \<and> sublist repoId (err_message (access_denied (status r) repoId (testUrl e repoId basePath)))
       \<and> sublist (testUrl e repoId basePath)
            (err_message (access_denied (status r) repoId (testUrl e repoId basePath)))
       \<and> sublist ''may be private or gated''
            (err_message (access_denied (status r) repoId (testUrl e repoId basePath)))
       \<and> sublist (decimal (status r)) (err_message (fetch_failed (status r)))"
  using assms
  by (simp add: getDatasetInfo_answered access_denied_not_generic access_denied_names_repo
      access_denied_names_url access_denied_guidance fetch_failed_status)

theorem getDatasetInfo_http_failure_witness:
  "answers (always (Resolves \<lparr>status = 403, json = Inr JNull\<rparr>))
     (info_request default_env ''lerobot/pusht'' []) \<lparr>status = 403, json = Inr JNull\<rparr>
   \<and> \<not> ok \<lparr>status = 403, json = Inr JNull\<rparr>
   \<and> getDatasetInfo default_env (always (Resolves \<lparr>status = 403, json = Inr JNull\<rparr>))
        ''lerobot/pusht'' [] =
      Inl (ErrorInstance (new_Error
        (''Failed to fetch dataset info: 403. The dataset lerobot/pusht may be private or gated. ''
         @ ''If it's private, set an access token via HF_TOKEN env variable. ''
         @ ''URL tried: https://huggingface.co/datasets/lerobot/pusht/resolve/main/meta/info.json'')))
   \<and> answers (first_rejects (ErrorInstance (JsError ''TypeError'' ''fetch failed''))
                (Resolves \<lparr>status = 500, json = Inr JNull\<rparr>))
     (info_request default_env ''lerobot/pusht'' []) \<lparr>status = 500, json = Inr JNull\<rparr>
   \<and> \<not> ok \<lparr>status = 500, json = Inr JNull\<rparr>
   \<and> getDatasetInfo default_env
        (first_rejects (ErrorInstance (JsError ''TypeError'' ''fetch failed''))
           (Resolves \<lparr>status = 500, json = Inr JNull\<rparr>))
        ''lerobot/pusht'' [] =
      Inl (ErrorInstance (new_Error ''Failed to fetch dataset info: 500''))"
proof -
  let ?r = "\<lparr>status = 403, json = Inr JNull\<rparr>"
  let ?q = "\<lparr>status = 500, json = Inr JNull\<rparr>"
  let ?t = "ErrorInstance (JsError ''TypeError'' ''fetch failed'')"
  have a1: "answers (always (Resolves ?r)) (info_request default_env ''lerobot/pusht'' []) ?r"
    by (rule answers_always)
  have o1: "\<not> ok ?r" by (simp add: ok_def)
  have a2: "answers (first_rejects ?t (Resolves ?q)) (info_request default_env ''lerobot/pusht'' []) ?q"
    by (rule answers_first_rejects) simp
  have o2: "\<not> ok ?q" by (simp add: ok_def)
  have d1: "decimal 403 = ''403''" by (simp add: decimal_def digit_char_def)
  have d2: "decimal 500 = ''500''" by (simp add: decimal_def digit_char_def)
  have u: "testUrl default_env ''lerobot/pusht'' [] =
      ''https://huggingface.co/datasets/lerobot/pusht/resolve/main/meta/info.json''"
    by (simp add: testUrl_def base_prefix_def DATASET_URL_def or_else_def default_env_def)
  from getDatasetInfo_http_failure [OF a1 o1]
  have g1: "getDatasetInfo default_env (always (Resolves ?r)) ''lerobot/pusht'' [] =
      Inl (ErrorInstance (new_Error
        (''Failed to fetch dataset info: 403. The dataset lerobot/pusht may be private or gated. ''
         @ ''If it's private, set an access token via HF_TOKEN env variable. ''
         @ ''URL tried: https://huggingface.co/datasets/lerobot/pusht/resolve/main/meta/info.json'')))"
    by (simp add: access_denied_def d1 u)
  from getDatasetInfo_http_failure [OF a2 o2]
  have g2: "getDatasetInfo default_env (first_rejects ?t (Resolves ?q)) ''lerobot/pusht'' [] =
      Inl (ErrorInstance (new_Error ''Failed to fetch dataset info: 500''))"
    by (simp add: fetch_failed_def d2)
  from a1 o1 a2 o2 g1 g2 show ?thesis by simp
qed

lemma getDatasetVersion_info_fails:
  "getDatasetInfo e net repoId basePath = Inl (ErrorInstance err) \<Longrightarrow>
   getDatasetVersion e net repoId basePath = Inl (ErrorInstance err)"
  by (simp add: getDatasetVersion_def)

text \<open>
  A parsed body other than \<^verbatim>\<open>null\<close> in which reading \<^verbatim>\<open>features\<close> gives
  \<^verbatim>\<open>undefined\<close> is refused by both functions with the malformed-descriptor error,
  whatever else it holds.
\<close>

lemma features_missing:
  assumes "answers net (info_request e repoId basePath) r" and "ok r"
      and "json r = Inr data" and "get_prop data ''features'' = Inr JUndefined"
  shows "getDatasetInfo e net repoId basePath = Inl (ErrorInstance malformed_descriptor)
       \<and> getDatasetVersion e net repoId basePath = Inl (ErrorInstance malformed_descriptor)"
proof -
  have "getDatasetInfo e net repoId basePath = Inl (ErrorInstance malformed_descriptor)"
    using assms by (simp add: getDatasetInfo_answered)
  then show ?thesis by (simp add: getDatasetVersion_info_fails)
qed

text \<open>
  C7 states that every body that parses and has no top-level \<^verbatim>\<open>features\<close> field
  makes \<^verbatim>\<open>getDatasetInfo\<close>, and with it \<^verbatim>\<open>getDatasetVersion\<close>, fail with the
  malformed-descriptor error. The body \<^verbatim>\<open>null\<close> parses and has no such field, but
  the check \<^verbatim>\<open>!data.features\<close> reads a property of \<^verbatim>\<open>null\<close>: both functions
  throw the \<^verbatim>\<open>TypeError\<close> of that read, not the malformed-descriptor error.
\<close>

theorem getDatasetInfo_null_body_type_error:
  "getDatasetInfo default_env (always (Resolves \<lparr>status = 200, json = Inr JNull\<rparr>))
     ''lerobot/pusht'' [] =
     Inl (TypeError ''Cannot read properties of null (reading 'features')'')
   \<and> getDatasetInfo default_env (always (Resolves \<lparr>status = 200, json = Inr JNull\<rparr>))
     ''lerobot/pusht'' [] \<noteq> Inl (ErrorInstance malformed_descriptor)
   \<and> getDatasetVersion default_env (always (Resolves \<lparr>status = 200, json = Inr JNull\<rparr>))
     ''lerobot/pusht'' [] =
     Inl (TypeError ''Cannot read properties of null (reading 'features')'')"
proof -
  have ans: "answers (always (Resolves \<lparr>status = 200, json = Inr JNull\<rparr>))
      (info_request default_env ''lerobot/pusht'' []) \<lparr>status = 200, json = Inr JNull\<rparr>"
    by (simp add: answers_def always_def)
  have i: "getDatasetInfo default_env (always (Resolves \<lparr>status = 200, json = Inr JNull\<rparr>))
     ''lerobot/pusht'' [] =
     Inl (TypeError ''Cannot read properties of null (reading 'features')'')"
    by (simp add: getDatasetInfo_answered [OF ans] ok_def TypeError_def)
  have v: "getDatasetVersion default_env (always (Resolves \<lparr>status = 200, json = Inr JNull\<rparr>))
     ''lerobot/pusht'' [] =
     Inl (TypeError ''Cannot read properties of null (reading 'features')'')"
    using i by (simp add: TypeError_def getDatasetVersion_info_fails)
  have n: "TypeError ''Cannot read properties of null (reading 'features')''
       \<noteq> ErrorInstance malformed_descriptor"
    by (simp add: TypeError_def malformed_descriptor_def new_Error_def)
  from i v n show ?thesis by simp
qed

text \<open>
  C10. The check on \<^verbatim>\<open>features\<close> tests truthiness: a body that is an object whose
  \<^verbatim>\<open>features\<close> field is \<^verbatim>\<open>null\<close>, \<^verbatim>\<open>false\<close>, \<^verbatim>\<open>0\<close> or the empty
  string makes \<^verbatim>\<open>getDatasetInfo\<close> throw the malformed-descriptor error, the same
  result as for an object without the field.
\<close>

theorem getDatasetInfo_falsy_features:
  assumes "answers net (info_request e repoId basePath) r" and "ok r"
      and "json r = Inr (JObj kvs)" and "map_of kvs ''features'' = Some v"
      and "v \<in> {JNull, JBool False, JNum 0, JStr []}"
      and "answers net' (info_request e repoId basePath) r'" and "ok r'"
      and "json r' = Inr (JObj kvs')" and "map_of kvs' ''features'' = None"
  shows "getDatasetInfo e net repoId basePath = Inl (ErrorInstance malformed_descriptor)
       \<and> getDatasetInfo e net repoId basePath = getDatasetInfo e net' repoId basePath"
proof -
  from assms(5) have "\<not> truthy v" by auto
  with assms(1-4) have 1: "getDatasetInfo e net repoId basePath = Inl (ErrorInstance malformed_descriptor)"
    by (simp add: getDatasetInfo_answered)
  from assms(6-9) have 2: "getDatasetInfo e net' repoId basePath = Inl (ErrorInstance malformed_descriptor)"
    by (simp add: getDatasetInfo_answered)
  from 1 2 show ?thesis by simp
qed

theorem getDatasetInfo_falsy_features_witness:
  "getDatasetInfo default_env
     (serves (JObj [(''codebase_version'', JStr ''v2.1''), (''features'', JNull)]))
     ''lerobot/pusht'' [] = Inl (ErrorInstance malformed_descriptor)
   \<and> getDatasetInfo default_env
     (serves (JObj [(''codebase_version'', JStr ''v2.1''), (''features'', JNum 0)]))
     ''lerobot/pusht'' [] =
     getDatasetInfo default_env (serves (JObj [(''codebase_version'', JStr ''v2.1'')]))
     ''lerobot/pusht'' []"
proof -
  let ?req = "info_request default_env ''lerobot/pusht'' []"
  let ?absent = "[(''codebase_version'', JStr ''v2.1'')]"
  let ?null = "[(''codebase_version'', JStr ''v2.1''), (''features'', JNull)]"
  let ?zero = "[(''codebase_version'', JStr ''v2.1''), (''features'', JNum 0)]"
  have a: "answers (serves b) ?req \<lparr>status = 200, json = Inr b\<rparr>" for b
    unfolding serves_def by (rule answers_always)
  have k: "ok \<lparr>status = 200, json = Inr b\<rparr>" for b :: js_value
    by (simp add: ok_def)
  have j: "json \<lparr>status = 200, json = Inr b\<rparr> = Inr b" for b :: js_value
    by simp
  have n: "map_of ?absent ''features'' = None" by simp
  have f1: "map_of ?null ''features'' = Some JNull" by simp
  have f2: "map_of ?zero ''features'' = Some (JNum 0)" by simp
  have m1: "JNull \<in> {JNull, JBool False, JNum 0, JStr []}" by simp
  have m2: "JNum 0 \<in> {JNull, JBool False, JNum 0, JStr []}" by simp
  from getDatasetInfo_falsy_features [OF a k j f1 m1 a k j n] getDatasetInfo_falsy_features [OF a k j f2 m2 a k j n]
  show ?thesis by blast
qed

section \<open>Version validation\<close>

lemma unsupported_version_names_repo:
  "sublist repoId (err_message (unsupported_version repoId v))"
proof -
  have "err_message (unsupported_version repoId v) =
      ''Dataset '' @ repoId
      @ ('' has codebase version '' @ v @ '', which is not supported. ''
       @ ''This tool only works with dataset versions 3.0, 2.1, or 2.0. ''
       @ ''Please use a compatible dataset version.'')"
    by (simp add: unsupported_version_def new_Error_def)
  then show ?thesis by (simp only: sublist_appendI)
qed

lemma unsupported_version_names_version:
  "sublist v (err_message (unsupported_version repoId v))"
proof -
  have "err_message (unsupported_version repoId v) =
      (''Dataset '' @ repoId @ '' has codebase version '') @ v
      @ ('', which is not supported. ''
       @ ''This tool only works with dataset versions 3.0, 2.1, or 2.0. ''
       @ ''Please use a compatible dataset version.'')"
    by (simp add: unsupported_version_def new_Error_def)
  then show ?thesis by (simp only: sublist_appendI)
qed

lemma unsupported_version_names_supported:
  "sublist ''3.0, 2.1, or 2.0'' (err_message (unsupported_version repoId v))"
proof -
  have "err_message (unsupported_version repoId v) =
      (''Dataset '' @ repoId @ '' has codebase version '' @ v
       @ '', which is not supported. This tool only works with dataset versions '')
      @ ''3.0, 2.1, or 2.0'' @ ''. Please use a compatible dataset version.''"
    by (simp add: unsupported_version_def new_Error_def)
  then show ?thesis by (simp only: sublist_appendI)
qed

lemma getDatasetVersion_after_info:
  "getDatasetInfo e net repoId basePath = Inr d \<Longrightarrow>
   getDatasetVersion e net repoId basePath =
     (case check_version repoId d of Inl err \<Rightarrow> Inl (rethrow repoId err) | Inr v \<Rightarrow> Inr v)"
  by (simp add: getDatasetVersion_def)

lemma check_version_supported:
  "get_prop d ''codebase_version'' = Inr (JStr v) \<Longrightarrow> v \<in> {''v3.0'', ''v2.1'', ''v2.0''} \<Longrightarrow>
   check_version repoId d = Inr (JStr v)"
  by (auto simp: check_version_def array_includes_def supportedVersions_def)

lemma check_version_missing:
  "get_prop d ''codebase_version'' = Inr JUndefined \<or> get_prop d ''codebase_version'' = Inr (JStr []) \<Longrightarrow>
   check_version repoId d = Inl (ErrorInstance missing_version)"
  by (auto simp: check_version_def)

lemma check_version_unsupported:
  "get_prop d ''codebase_version'' = Inr (JStr v) \<Longrightarrow> v \<noteq> [] \<Longrightarrow>
   v \<notin> {''v3.0'', ''v2.1'', ''v2.0''} \<Longrightarrow>
   check_version repoId d = Inl (ErrorInstance (unsupported_version repoId v))"
  by (simp add: check_version_def array_includes_def supportedVersions_def)

lemma check_version_succeeds:
  "(\<exists>r. check_version repoId d = Inr r) =
   (\<exists>v\<in>{''v3.0'', ''v2.1'', ''v2.0''}. get_prop d ''codebase_version'' = Inr (JStr v))"
  by (auto simp: check_version_def array_includes_def supportedVersions_def
      split: sum.splits js_value.splits if_splits)

text \<open>
  C1. Suppose \<^verbatim>\<open>getDatasetInfo\<close> returns a descriptor. Then \<^verbatim>\<open>getDatasetVersion\<close>
  returns a value exactly when the descriptor's \<^verbatim>\<open>codebase_version\<close> is one of the
  strings \<^verbatim>\<open>v3.0\<close>, \<^verbatim>\<open>v2.1\<close>, \<^verbatim>\<open>v2.0\<close>, and the value is that string
  unchanged. If the field is absent or the empty string, it throws the missing-version
  error. For any other non-empty string it throws the unsupported-version error, whose
  message contains the repository identifier, the offending string and the supported
  versions \<^verbatim>\<open>3.0, 2.1, or 2.0\<close>.
\<close>

theorem getDatasetVersion_allowlist:
  assumes "getDatasetInfo e net repoId basePath = Inr d"
  shows "((\<exists>r. getDatasetVersion e net repoId basePath = Inr r) =
          (\<exists>v\<in>{''v3.0'', ''v2.1'', ''v2.0''}. get_prop d ''codebase_version'' = Inr (JStr v)))
       \<and> (\<forall>v\<in>{''v3.0'', ''v2.1'', ''v2.0''}.
            get_prop d ''codebase_version'' = Inr (JStr v) \<longrightarrow>
            getDatasetVersion e net repoId basePath = Inr (JStr v))
       \<and> (get_prop d ''codebase_version'' = Inr JUndefined
            \<or> get_prop d ''codebase_version'' = Inr (JStr []) \<longrightarrow>
            getDatasetVersion e net repoId basePath = Inl (ErrorInstance missing_version))
       \<and> (\<forall>v. get_prop d ''codebase_version'' = Inr (JStr v) \<and> v \<noteq> []
               \<and> v \<notin> {''v3.0'', ''v2.1'', ''v2.0''} \<longrightarrow>
            getDatasetVersion e net repoId basePath =
              Inl (ErrorInstance (unsupported_version repoId v))
            \<and> sublist repoId (err_message (unsupported_version repoId v))
            \<and> sublist v (err_message (unsupported_version repoId v))
            \<and> sublist ''3.0, 2.1, or 2.0'' (err_message (unsupported_version repoId v)))"
proof -
  note gv = getDatasetVersion_after_info [OF assms]
  have a: "(\<exists>r. getDatasetVersion e net repoId basePath = Inr r) =
          (\<exists>v\<in>{''v3.0'', ''v2.1'', ''v2.0''}. get_prop d ''codebase_version'' = Inr (JStr v))"
    unfolding check_version_succeeds [of repoId d, symmetric] gv
    by (cases "check_version repoId d") simp_all
  have b: "\<forall>v\<in>{''v3.0'', ''v2.1'', ''v2.0''}.
            get_prop d ''codebase_version'' = Inr (JStr v) \<longrightarrow>
            getDatasetVersion e net repoId basePath = Inr (JStr v)"
    using check_version_supported [of d _ repoId] by (auto simp: gv)
  have c: "get_prop d ''codebase_version'' = Inr JUndefined
            \<or> get_prop d ''codebase_version'' = Inr (JStr []) \<longrightarrow>
            getDatasetVersion e net repoId basePath = Inl (ErrorInstance missing_version)"
    using check_version_missing [of d repoId] by (auto simp: gv)
  have d: "\<forall>v. get_prop d ''codebase_version'' = Inr (JStr v) \<and> v \<noteq> []
               \<and> v \<notin> {''v3.0'', ''v2.1'', ''v2.0''} \<longrightarrow>
            getDatasetVersion e net repoId basePath =
              Inl (ErrorInstance (unsupported_version repoId v))
            \<and> sublist repoId (err_message (unsupported_version repoId v))
            \<and> sublist v (err_message (unsupported_version repoId v))
            \<and> sublist ''3.0, 2.1, or 2.0'' (err_message (unsupported_version repoId v))"
    using check_version_unsupported [of d _ repoId]
    by (auto simp: gv unsupported_version_names_repo unsupported_version_names_version
        unsupported_version_names_supported)
  from a b c d show ?thesis by blast
qed

theorem getDatasetVersion_allowlist_witness:
  "getDatasetInfo default_env
     (serves (JObj [(''codebase_version'', JStr ''v2.1''), (''features'', JObj [])]))
     ''lerobot/pusht'' [] =
     Inr (JObj [(''codebase_version'', JStr ''v2.1''), (''features'', JObj [])])
   \<and> getDatasetVersion default_env
     (serves (JObj [(''codebase_version'', JStr ''v2.1''), (''features'', JObj [])]))
     ''lerobot/pusht'' [] = Inr (JStr ''v2.1'')
   \<and> getDatasetInfo default_env
     (serves (JObj [(''codebase_version'', JStr ''v1.0''), (''features'', JObj [])]))
     ''lerobot/pusht'' [] =
     Inr (JObj [(''codebase_version'', JStr ''v1.0''), (''features'', JObj [])])
   \<and> getDatasetVersion default_env
     (serves (JObj [(''codebase_version'', JStr ''v1.0''), (''features'', JObj [])]))
     ''lerobot/pusht'' [] =
     Inl (ErrorInstance (unsupported_version ''lerobot/pusht'' ''v1.0''))
   \<and> getDatasetInfo default_env (serves (JObj [(''features'', JObj [])])) ''lerobot/pusht'' [] =
     Inr (JObj [(''features'', JObj [])])
   \<and> getDatasetVersion default_env (serves (JObj [(''features'', JObj [])])) ''lerobot/pusht'' [] =
     Inl (ErrorInstance missing_version)"
proof -
  let ?A = "JObj [(''codebase_version'', JStr ''v2.1''), (''features'', JObj [])]"
  let ?B = "JObj [(''codebase_version'', JStr ''v1.0''), (''features'', JObj [])]"
  let ?C = "JObj [(''features'', JObj [])]"
  have iA: "getDatasetInfo default_env (serves ?A) ''lerobot/pusht'' [] = Inr ?A"
    by (simp add: getDatasetInfo_serves)
  have iB: "getDatasetInfo default_env (serves ?B) ''lerobot/pusht'' [] = Inr ?B"
    by (simp add: getDatasetInfo_serves)
  have iC: "getDatasetInfo default_env (serves ?C) ''lerobot/pusht'' [] = Inr ?C"
    by (simp add: getDatasetInfo_serves)
  from getDatasetVersion_allowlist [OF iA]
  have vA: "getDatasetVersion default_env (serves ?A) ''lerobot/pusht'' [] = Inr (JStr ''v2.1'')"
    by simp
  from getDatasetVersion_allowlist [OF iB]
  have vB: "getDatasetVersion default_env (serves ?B) ''lerobot/pusht'' [] =
      Inl (ErrorInstance (unsupported_version ''lerobot/pusht'' ''v1.0''))"
    by simp
  from getDatasetVersion_allowlist [OF iC]
  have vC: "getDatasetVersion default_env (serves ?C) ''lerobot/pusht'' [] =
      Inl (ErrorInstance missing_version)"
    by simp
  from iA iB iC vA vB vC show ?thesis by simp
qed

end
